theory Spec2Isabelle
  imports Main "HOL-Library.Multiset" "HOL-Library.Code_Target_Numeral"
begin

section \<open>JavaScript strings and values\<close>

text \<open>
  A JavaScript string is modelled as a \<^typ>\<open>string\<close>: each \<^typ>\<open>char\<close> stands for the
  UTF-16 code unit of the same number, so the model covers text in the Latin-1 range
  (code units below 256). The character classes of the regular expressions and of
  \<^verbatim>\<open>trim\<close> are written out for that range.
\<close>

text \<open>\<^verbatim>\<open>\s\<close> and the characters removed by \<^verbatim>\<open>trim()\<close>: TAB, LF, VT, FF, CR, space, NBSP.\<close>

definition isSpace :: "char \<Rightarrow> bool" where
  "isSpace c = (of_char c \<in> {9, 10, 11, 12, 13, 32, 160 :: nat})"

text \<open>\<^verbatim>\<open>\w\<close>: \<^verbatim>\<open>[A-Za-z0-9_]\<close>.\<close>

definition isWordChar :: "char \<Rightarrow> bool" where
  "isWordChar c =
     (let n = (of_char c :: nat)
      in (65 \<le> n \<and> n \<le> 90) \<or> (97 \<le> n \<and> n \<le> 122) \<or> (48 \<le> n \<and> n \<le> 57) \<or> n = 95)"

text \<open>
  \<^verbatim>\<open>toLowerCase()\<close> on one Latin-1 code unit: \<^verbatim>\<open>A-Z\<close> and the accented capitals
  \<^verbatim>\<open>U+00C0..U+00DE\<close> (without the multiplication sign \<^verbatim>\<open>U+00D7\<close>) move up by 32.
\<close>

definition lowerChar :: "char \<Rightarrow> char" where
  "lowerChar c =
     (let n = (of_char c :: nat)
      in if (65 \<le> n \<and> n \<le> 90) \<or> (192 \<le> n \<and> n \<le> 222 \<and> n \<noteq> 215)
         then char_of (n + 32) else c)"

definition toLowerCase :: "string \<Rightarrow> string" where
  "toLowerCase s = map lowerChar s"

definition trimStart :: "string \<Rightarrow> string" where
  "trimStart s = dropWhile isSpace s"

definition trim :: "string \<Rightarrow> string" where
  "trim s = rev (dropWhile isSpace (rev (dropWhile isSpace s)))"

text \<open>
  \<^verbatim>\<open>s.replace(/\s+/g, ' ')\<close>: every maximal run of whitespace becomes one space. The
  flag says whether the previous character belonged to a run already replaced.
\<close>

fun collapseFrom :: "bool \<Rightarrow> string \<Rightarrow> string" where
  "collapseFrom inRun [] = []"
| "collapseFrom inRun (c # cs) =
     (if isSpace c then (if inRun then collapseFrom True cs else CHR '' '' # collapseFrom True cs)
      else c # collapseFrom False cs)"

definition collapseSpaces :: "string \<Rightarrow> string" where
  "collapseSpaces s = collapseFrom False s"

text \<open>\<^verbatim>\<open>haystack.includes(needle)\<close>\<close>

fun strIncludes :: "string \<Rightarrow> string \<Rightarrow> bool" where
  "strIncludes [] needle = (needle = [])"
| "strIncludes (c # cs) needle = (take (length needle) (c # cs) = needle \<or> strIncludes cs needle)"

section \<open>Content hash (\<^verbatim>\<open>scraper/extractors.js\<close>)\<close>

text \<open>\<^verbatim>\<open>s.replace(/[^\w\s]/g, ' ')\<close>\<close>

definition replaceNonWord :: "string \<Rightarrow> string" where
  "replaceNonWord s = map (\<lambda>c. if isWordChar c \<or> isSpace c then c else CHR '' '') s"

text \<open>
  The normalisation inside \<^verbatim>\<open>calculateContentHash\<close>: lowercase, replace punctuation,
  collapse whitespace, trim.
\<close>

definition normalizedContent :: "string \<Rightarrow> string" where
  "normalizedContent text = trim (collapseSpaces (replaceNonWord (toLowerCase text)))"

text \<open>
  \<^verbatim>\<open>calculateContentHash(text)\<close>. The digest \<^verbatim>\<open>crypto.createHash('sha256')\<close> belongs to
  the platform and is the parameter \<open>sha256\<close>; \<^verbatim>\<open>null\<close> is \<^const>\<open>None\<close>. The argument is
  a string at the only call site, so the \<^verbatim>\<open>typeof\<close> test is always passed.
\<close>

definition calculateContentHash :: "(string \<Rightarrow> string) \<Rightarrow> string \<Rightarrow> string option" where
  "calculateContentHash sha256 text =
     (if text = [] \<or> length (trim text) = 0 then None
      else let normalized = normalizedContent text
           in if length normalized = 0 then None else Some (sha256 normalized))"

section \<open>The platform's \<^verbatim>\<open>URL\<close> class\<close>

text \<open>
  \<^verbatim>\<open>new URL(s)\<close> is the platform's parser, not code of the repository. The model covers
  URLs of the shape \<^verbatim>\<open>scheme://host[:port][/path][?query][#hash]\<close> (and the opaque shape
  \<^verbatim>\<open>scheme:rest\<close>), lowercases scheme and host, and turns an empty path into \<^verbatim>\<open>/\<close>. It
  does not model user names, percent-encoding, the removal of dot segments or of default
  ports. A string that does not start with a scheme is not a URL: the constructor
  throws, which is \<^const>\<open>None\<close>.
\<close>

record url_obj =
  protocol :: string
  hostname :: string
  port :: string
  pathname :: string
  search :: string
  hash :: string

definition isAlpha :: "char \<Rightarrow> bool" where
  "isAlpha c = (let n = (of_char c :: nat) in (65 \<le> n \<and> n \<le> 90) \<or> (97 \<le> n \<and> n \<le> 122))"

definition isDigit :: "char \<Rightarrow> bool" where
  "isDigit c = (let n = (of_char c :: nat) in 48 \<le> n \<and> n \<le> 57)"

definition isSchemeChar :: "char \<Rightarrow> bool" where
  "isSchemeChar c = (isAlpha c \<or> isDigit c \<or> c \<in> set ''+-.'')"

definition parseScheme :: "string \<Rightarrow> (string \<times> string) option" where
  "parseScheme s =
     (let sch = takeWhile isSchemeChar s; rest = dropWhile isSchemeChar s
      in case (sch, rest) of
           (a # _, c # rest') \<Rightarrow>
             if isAlpha a \<and> c = CHR '':'' then Some (toLowerCase sch @ '':'', rest') else None
         | _ \<Rightarrow> None)"

definition parseURL :: "string \<Rightarrow> url_obj option" where
  "parseURL s =
     (case parseScheme (trim s) of
        None \<Rightarrow> None
      | Some (proto, rest) \<Rightarrow>
          if take 2 rest = ''//'' then
            (let r = drop 2 rest;
                 auth = takeWhile (\<lambda>c. c \<notin> set ''/?#'') r;
                 r1 = dropWhile (\<lambda>c. c \<notin> set ''/?#'') r;
                 path = takeWhile (\<lambda>c. c \<notin> set ''?#'') r1;
                 r2 = dropWhile (\<lambda>c. c \<notin> set ''?#'') r1;
                 query = takeWhile (\<lambda>c. c \<noteq> CHR ''#'') r2;
                 frag = dropWhile (\<lambda>c. c \<noteq> CHR ''#'') r2;
                 host = takeWhile (\<lambda>c. c \<noteq> CHR '':'') auth;
                 prt = drop 1 (dropWhile (\<lambda>c. c \<noteq> CHR '':'') auth)
             in if host = [] then None
                else Some \<lparr>protocol = proto, hostname = toLowerCase host, port = prt,
                       pathname = (if path = [] then ''/'' else path),
                       search = (if query = ''?'' then [] else query),
                       hash = (if frag = ''#'' then [] else frag)\<rparr>)
          else
            (let path = takeWhile (\<lambda>c. c \<notin> set ''?#'') rest;
                 r2 = dropWhile (\<lambda>c. c \<notin> set ''?#'') rest;
                 query = takeWhile (\<lambda>c. c \<noteq> CHR ''#'') r2;
                 frag = dropWhile (\<lambda>c. c \<noteq> CHR ''#'') r2
             in Some \<lparr>protocol = proto, hostname = [], port = [], pathname = path,
                    search = (if query = ''?'' then [] else query),
                    hash = (if frag = ''#'' then [] else frag)\<rparr>))"

text \<open>\<^verbatim>\<open>u.toString()\<close>\<close>

definition href :: "url_obj \<Rightarrow> string" where
  "href u =
     protocol u
     @ (if hostname u = [] then []
        else ''//'' @ hostname u @ (if port u = [] then [] else '':'' @ port u))
     @ pathname u @ search u @ hash u"



section \<open>Helpers of \<^verbatim>\<open>scraper/scraper.js\<close>\<close>

text \<open>
  \<^verbatim>\<open>baseUrl(url)\<close>: the URL without hash and query; for a string that is not a URL, the
  part before the first \<^verbatim>\<open>#\<close>.
\<close>

definition baseUrl :: "string \<Rightarrow> string" where
  "baseUrl u =
     (case parseURL u of
        Some p \<Rightarrow> href (p\<lparr>hash := [], search := []\<rparr>)
      | None \<Rightarrow> takeWhile (\<lambda>c. c \<noteq> CHR ''#'') u)"












section \<open>Fragments and page aggregation (\<^verbatim>\<open>buildPageDocs\<close>)\<close>

text \<open>
  A fragment document, with the fields that aggregation, indexing and pruning read. A
  field that may be absent (\<^verbatim>\<open>undefined\<close>) is an \<open>option\<close>; an absent array reads as
  \<open>[]\<close>, as \<^verbatim>\<open>(f.x || [])\<close> does. The presentation and scoring fields
  (\<^verbatim>\<open>site_hierarchy\<close>, \<^verbatim>\<open>page_hierarchy\<close>, \<^verbatim>\<open>component_type\<close>, \<^verbatim>\<open>has_form\<close>,
  \<^verbatim>\<open>has_checklist\<close>, \<^verbatim>\<open>reading_level\<close>, \<^verbatim>\<open>styles_raw\<close>, \<^verbatim>\<open>classes\<close>,
  \<^verbatim>\<open>popularity_score\<close>, \<^verbatim>\<open>popularity_sort\<close>) and the clock readings
  (\<^verbatim>\<open>last_modified\<close>, \<^verbatim>\<open>last_seen_at\<close>) are left out.
\<close>

record fragment =
  frag_id :: string
  url :: string
  page_url :: "string option"
  anchor :: "string option"
  title :: "string option"
  content_text :: string
  content_html :: string
  hierarchy_lvl0 :: "string option"
  hierarchy_lvl1 :: "string option"
  hierarchy_lvl2 :: "string option"
  hierarchy_lvl3 :: "string option"
  life_events :: "string list"
  categories :: "string list"
  states :: "string list"
  provider :: "string option"
  governance :: "string option"
  stage :: "string option"
  stage_variant :: "string option"
  search_keywords :: "string list"
  content_hash :: "string option"
  crawl_version :: int

text \<open>\<^verbatim>\<open>a || b\<close> on strings that may be absent: the empty string and \<^verbatim>\<open>undefined\<close> are falsy.\<close>

definition truthy :: "string option \<Rightarrow> bool" where
  "truthy v = (case v of None \<Rightarrow> False | Some s \<Rightarrow> s \<noteq> [])"

definition orElse :: "string option \<Rightarrow> string option \<Rightarrow> string option" where
  "orElse a b = (if truthy a then a else b)"

definition orDefault :: "string option \<Rightarrow> string \<Rightarrow> string" where
  "orDefault a d = (case a of Some s \<Rightarrow> (if s = [] then d else s) | None \<Rightarrow> d)"

text \<open>
  A JavaScript \<^verbatim>\<open>Set\<close> iterates in insertion order: a list without repetition, new
  elements at the end. A \<^verbatim>\<open>Map\<close> likewise: an association list where \<^verbatim>\<open>set\<close> on a
  present key keeps the key's place.
\<close>

definition setAdd :: "'a \<Rightarrow> 'a list \<Rightarrow> 'a list" where
  "setAdd x xs = (if x \<in> set xs then xs else xs @ [x])"

definition setAddAll :: "'a list \<Rightarrow> 'a list \<Rightarrow> 'a list" where
  "setAddAll ys xs = foldl (\<lambda>acc y. setAdd y acc) xs ys"

definition setAddOpt :: "string option \<Rightarrow> string list \<Rightarrow> string list" where
  "setAddOpt v xs = (if truthy v then setAdd (the v) xs else xs)"












text \<open>
  The page document. \<open>pg_embedding\<close> holds the bucket counts (see \<open>buildHashedCounts\<close>);
  \<^verbatim>\<open>last_seen_at\<close>, a reading of the clock, is left out.
\<close>

record page_doc =
  pg_id :: string
  pg_url :: string
  pg_host :: string
  pg_title :: "string option"
  pg_fragment_ids :: "string list"
  pg_fragment_count :: nat
  pg_life_events :: "string list"
  pg_categories :: "string list"
  pg_states :: "string list"
  pg_provider :: "string list"
  pg_governance :: "string list"
  pg_stage :: string
  pg_stage_variant :: string
  pg_content_text :: string
  pg_keywords :: "string list"
  pg_embedding :: "nat list"
  pg_out_links :: "string list"
  pg_out_link_tokens :: "string list"
  pg_crawl_version :: int






section \<open>The rendered page: a document tree and the selections used on it\<close>

text \<open>
  The parsed page is a tree of elements and text nodes. A selection of the query library
  is a list of positions in document order; a position is the path of child indices from
  the root, which gives every node its identity.
\<close>

datatype node = Text string | Elem string "(string \<times> string) list" "node list"

type_synonym path = "nat list"

fun nodeText :: "node \<Rightarrow> string" where
  "nodeText (Text s) = s"
| "nodeText (Elem t as ks) = concat (map nodeText ks)"

fun tagOf :: "node \<Rightarrow> string" where
  "tagOf (Text s) = []"
| "tagOf (Elem t as ks) = t"

fun attr :: "node \<Rightarrow> string \<Rightarrow> string option" where
  "attr (Text s) a = None"
| "attr (Elem t as ks) a = map_of as a"

fun kids :: "node \<Rightarrow> node list" where
  "kids (Text s) = []"
| "kids (Elem t as ks) = ks"

fun isElem :: "node \<Rightarrow> bool" where
  "isElem (Text s) = False"
| "isElem (Elem t as ks) = True"

fun nodeAt :: "node \<Rightarrow> path \<Rightarrow> node option" where
  "nodeAt n [] = Some n"
| "nodeAt n (i # p) = (if i < length (kids n) then nodeAt (kids n ! i) p else None)"

text \<open>The positions of all elements of a subtree, in document order.\<close>

fun pathsOfNode :: "path \<Rightarrow> node \<Rightarrow> path list"
  and pathsOfKids :: "path \<Rightarrow> nat \<Rightarrow> node list \<Rightarrow> path list" where
  "pathsOfNode p (Text s) = []"
| "pathsOfNode p (Elem t as ks) = p # pathsOfKids p 0 ks"
| "pathsOfKids p i [] = []"
| "pathsOfKids p i (k # ks) = pathsOfNode (p @ [i]) k @ pathsOfKids p (Suc i) ks"

text \<open>Whitespace-separated words, as in a \<^verbatim>\<open>class\<close> attribute.\<close>

fun wordsFrom :: "string \<Rightarrow> string \<Rightarrow> string list" where
  "wordsFrom w [] = (if w = [] then [] else [w])"
| "wordsFrom w (c # cs) =
     (if isSpace c then (if w = [] then wordsFrom [] cs else w # wordsFrom [] cs)
      else wordsFrom (w @ [c]) cs)"

definition classList :: "node \<Rightarrow> string list" where
  "classList n = (case attr n ''class'' of None \<Rightarrow> [] | Some v \<Rightarrow> wordsFrom [] v)"

text \<open>
  The selectors of the source, as data: a simple selector, a compound of simple
  selectors on one element (\<^verbatim>\<open>div.content\<close>), a chain of compounds joined by the
  descendant combinator (\<^verbatim>\<open>.breadcrumb li\<close>), and a comma-separated group of chains.
\<close>

datatype simple_sel =
    Tag string
  | Cls string
  | Ident string
  | AttrIs string string
  | AttrHas string string

type_synonym compound = "simple_sel list"
type_synonym selector = "compound list list"

fun matchesSimple :: "node \<Rightarrow> simple_sel \<Rightarrow> bool" where
  "matchesSimple n (Tag t) = (isElem n \<and> tagOf n = t)"
| "matchesSimple n (Cls c) = (c \<in> set (classList n))"
| "matchesSimple n (Ident i) = (attr n ''id'' = Some i)"
| "matchesSimple n (AttrIs a v) = (attr n a = Some v)"
| "matchesSimple n (AttrHas a v) = (case attr n a of None \<Rightarrow> False | Some x \<Rightarrow> strIncludes x v)"

definition matchesCompound :: "node \<Rightarrow> compound \<Rightarrow> bool" where
  "matchesCompound n c = (isElem n \<and> list_all (matchesSimple n) c)"

text \<open>The outer compounds of a chain, innermost first, against the ancestors, nearest first.\<close>

fun ancestorsMatch :: "compound list \<Rightarrow> node list \<Rightarrow> bool" where
  "ancestorsMatch [] ancs = True"
| "ancestorsMatch (c # cs) [] = False"
| "ancestorsMatch (c # cs) (a # ancs) =
     ((matchesCompound a c \<and> ancestorsMatch cs ancs) \<or> ancestorsMatch (c # cs) ancs)"

definition matchesChain :: "node list \<Rightarrow> node \<Rightarrow> compound list \<Rightarrow> bool" where
  "matchesChain ancs n chain =
     (case rev chain of [] \<Rightarrow> False | c # outer \<Rightarrow> matchesCompound n c \<and> ancestorsMatch outer ancs)"

definition ancestorsAt :: "node \<Rightarrow> path \<Rightarrow> node list" where
  "ancestorsAt root p = rev (List.map_filter (\<lambda>n. nodeAt root (take n p)) [0..<length p])"

definition matchesAt :: "node \<Rightarrow> selector \<Rightarrow> path \<Rightarrow> bool" where
  "matchesAt root sel p =
     (case nodeAt root p of
        None \<Rightarrow> False
      | Some n \<Rightarrow> list_ex (matchesChain (ancestorsAt root p) n) sel)"

text \<open>\<^verbatim>\<open>$(sel)\<close>: all elements of the document that match, in document order.\<close>

definition select :: "node \<Rightarrow> selector \<Rightarrow> path list" where
  "select root sel = filter (matchesAt root sel) (pathsOfNode [] root)"

text \<open>\<^verbatim>\<open>$ctx.find(sel)\<close>: the matching proper descendants of the elements of \<open>ctx\<close>.\<close>

definition isBelow :: "path \<Rightarrow> path \<Rightarrow> bool" where
  "isBelow c p = (length c < length p \<and> take (length c) p = c)"

definition find :: "node \<Rightarrow> path list \<Rightarrow> selector \<Rightarrow> path list" where
  "find root ctx sel =
     filter (\<lambda>p. list_ex (\<lambda>c. isBelow c p) ctx \<and> matchesAt root sel p) (pathsOfNode [] root)"

text \<open>\<^verbatim>\<open>$sel.text()\<close>: the text of every element of the selection, concatenated.\<close>

definition selText :: "node \<Rightarrow> path list \<Rightarrow> string" where
  "selText root ps = concat (map (\<lambda>p. case nodeAt root p of None \<Rightarrow> [] | Some n \<Rightarrow> nodeText n) ps)"

text \<open>The element children of the node at \<open>p\<close>, as positions.\<close>

definition childrenOf :: "node \<Rightarrow> path \<Rightarrow> path list" where
  "childrenOf root p =
     (case nodeAt root p of
        None \<Rightarrow> []
      | Some n \<Rightarrow> map (\<lambda>i. p @ [i]) (filter (\<lambda>i. isElem (kids n ! i)) [0..<length (kids n)]))"

text \<open>
  \<^verbatim>\<open>prevAll\<close> (nearest sibling first) and \<^verbatim>\<open>nextAll\<close>: the element siblings before and
  after the node at \<open>p\<close>.
\<close>

definition prevAll :: "node \<Rightarrow> path \<Rightarrow> path list" where
  "prevAll root p =
     (if p = [] then [] else rev (filter (\<lambda>q. last q < last p) (childrenOf root (butlast p))))"

definition nextAll :: "node \<Rightarrow> path \<Rightarrow> path list" where
  "nextAll root p =
     (if p = [] then [] else filter (\<lambda>q. last p < last q) (childrenOf root (butlast p)))"

text \<open>
  \<^verbatim>\<open>$el.nextUntil(until, filter)\<close> where \<open>until\<close> is an element or \<^verbatim>\<open>undefined\<close>: the
  following siblings up to, and without, the element \<open>until\<close>, of which those that match
  \<open>filter\<close> are kept.
\<close>

definition nextUntil :: "node \<Rightarrow> path \<Rightarrow> path option \<Rightarrow> selector \<Rightarrow> path list" where
  "nextUntil root p until flt =
     filter (matchesAt root flt) (takeWhile (\<lambda>q. Some q \<noteq> until) (nextAll root p))"

definition tagSel :: "string list \<Rightarrow> selector" where
  "tagSel tags = map (\<lambda>t. [[Tag t]]) tags"

definition headingSel :: selector where
  "headingSel = tagSel [''h1'', ''h2'', ''h3'', ''h4'']"

section \<open>Fragment extraction (\<^verbatim>\<open>scraper/extractors.js\<close>, \<^verbatim>\<open>extractFragments\<close>)\<close>

text \<open>
  What the extraction takes from outside the repository's sources: the digests of the
  platform, the serialiser of the query library (\<open>outerHTML\<close>), and the lexical
  classifier behind \<^verbatim>\<open>enrichWithTaxonomy\<close>. \<open>keywordsOf\<close> stands for
  \<^verbatim>\<open>extractKeywords\<close>, whose result no property below reads.
\<close>

record taxonomy =
  tx_life_events :: "string list"
  tx_categories :: "string list"
  tx_states :: "string list"
  tx_provider :: "string option"
  tx_governance :: "string option"
  tx_stage :: "string option"
  tx_stage_variant :: "string option"

record platform =
  md5 :: "string \<Rightarrow> string"
  sha256 :: "string \<Rightarrow> string"
  outerHTML :: "node \<Rightarrow> string"
  keywordsOf :: "string \<Rightarrow> string list"
  classify :: "string \<Rightarrow> string \<Rightarrow> string \<Rightarrow> taxonomy option"

text \<open>\<^verbatim>\<open>breadcrumbs[breadcrumbs.length - 1]\<close>: \<^verbatim>\<open>undefined\<close> on an empty array.\<close>

definition lastCrumb :: "string list \<Rightarrow> string option" where
  "lastCrumb breadcrumbs = (if breadcrumbs = [] then None else Some (last breadcrumbs))"

text \<open>\<^verbatim>\<open>parseInt($heading[0].name.substring(1))\<close> for the tags \<^verbatim>\<open>h1\<close> to \<^verbatim>\<open>h4\<close>.\<close>

definition headingLevel :: "string \<Rightarrow> nat" where
  "headingLevel tag = (case tag of [h, d] \<Rightarrow> of_char d - 48 | _ \<Rightarrow> 0)"

text \<open>\<^verbatim>\<open>$heading.prevAll(tag).first().text()\<close>\<close>

definition prevHeadingText :: "node \<Rightarrow> path \<Rightarrow> string \<Rightarrow> string" where
  "prevHeadingText root h tag =
     selText root (take 1 (filter (matchesAt root (tagSel [tag])) (prevAll root h)))"

text \<open>
  \<^verbatim>\<open>extractFragment({$heading, $content, $, url, breadcrumbs, pageTitle, page})\<close>. The
  fragment is returned before enrichment; \<open>crawl_version\<close> is set by the caller.
\<close>

definition extractFragment ::
  "platform \<Rightarrow> node \<Rightarrow> path \<Rightarrow> path list \<Rightarrow> string \<Rightarrow> string list \<Rightarrow> string \<Rightarrow> fragment" where
  "extractFragment env root heading content u breadcrumbs pageTitle =
     (let headingText = trim (selText root [heading]);
          contentText = trim (selText root content);
          ident = md5 env (u @ headingText @ contentText);
          hnode = (case nodeAt root heading of Some n \<Rightarrow> n | None \<Rightarrow> Text []);
          level = headingLevel (tagOf hnode);
          crumb0 = orDefault (lastCrumb breadcrumbs) (orDefault (Some pageTitle) ''Content'');
          lvl0 = (if level = 1 then orDefault (Some headingText) (orDefault (Some pageTitle) ''Content'')
                  else crumb0);
          lvl1 = (if level = 1 then None
                  else if level = 2 then Some (orDefault (Some headingText) ''Section'')
                  else Some (orDefault (Some (prevHeadingText root heading ''h2'')) ''Section''));
          lvl2 = (if level = 1 \<or> level = 2 then None
                  else if level = 3 then Some (orDefault (Some headingText) ''Subsection'')
                  else Some (orDefault (Some (prevHeadingText root heading ''h3'')) ''Subsection''));
          lvl3 = (if level = 1 \<or> level = 2 \<or> level = 3 then None
                  else Some (orDefault (Some headingText) ''Item''));
          anch = orDefault (attr hnode ''id'') ident
      in \<lparr>frag_id = ident,
          url = u @ ''#'' @ anch,
          page_url = None,
          anchor = Some anch,
          title = Some (orDefault (Some headingText) ''Untitled''),
          content_text = contentText,
          content_html = concat (map (outerHTML env)
                           (hnode # List.map_filter (nodeAt root) content)),
          hierarchy_lvl0 = Some (orDefault (Some lvl0) ''Content''),
          hierarchy_lvl1 = lvl1,
          hierarchy_lvl2 = lvl2,
          hierarchy_lvl3 = lvl3,
          life_events = [],
          categories = [],
          states = [''National''],
          provider = None, governance = None, stage = None, stage_variant = None,
          search_keywords = keywordsOf env contentText,
          content_hash = calculateContentHash (sha256 env) contentText,
          crawl_version = 0\<rparr>)"

text \<open>\<^verbatim>\<open>extractStandaloneFragment($elem, url, breadcrumbs)\<close>\<close>

definition extractStandaloneFragment ::
  "platform \<Rightarrow> node \<Rightarrow> path \<Rightarrow> string \<Rightarrow> string list \<Rightarrow> fragment" where
  "extractStandaloneFragment env root elem u breadcrumbs =
     (let txt = selText root [elem];
          ident = md5 env (u @ txt);
          enode = (case nodeAt root elem of Some n \<Rightarrow> n | None \<Rightarrow> Text []);
          ttl = orDefault
                  (orElse (Some (selText root (take 1 (find root [elem] headingSel))))
                     (attr enode ''aria-label''))
                  ''Important Information''
      in \<lparr>frag_id = ident,
          url = u @ ''#'' @ ident,
          page_url = None,
          anchor = None,
          title = Some ttl,
          content_text = trim txt,
          content_html = concat (map (outerHTML env) (kids enode)),
          hierarchy_lvl0 = Some (orDefault (lastCrumb breadcrumbs) (orDefault (Some ttl) ''Content'')),
          hierarchy_lvl1 = None, hierarchy_lvl2 = None, hierarchy_lvl3 = None,
          life_events = [], categories = [], states = [],
          provider = None, governance = None, stage = None, stage_variant = None,
          search_keywords = [],
          content_hash = None,
          crawl_version = 0\<rparr>)"

text \<open>
  Modelled from the spec: \<^verbatim>\<open>enrichWithTaxonomy\<close> lives in \<^verbatim>\<open>scraper/taxonomies.js\<close>, which
  is not among the sources. By section 4.3 of the specification it classifies the
  fragment from its title, text and URL and returns the taxonomy fields (life events,
  categories, states, provider, governance, stage), leaving the rest of the fragment as it
  is. The classification itself is the parameter \<open>classify\<close>; \<^const>\<open>None\<close> is a thrown
  error.
\<close>

definition enrichWithTaxonomy :: "platform \<Rightarrow> fragment \<Rightarrow> fragment option" where
  "enrichWithTaxonomy env f =
     (case classify env (url f) (orDefault (title f) []) (content_text f) of
        None \<Rightarrow> None
      | Some t \<Rightarrow>
          Some (f\<lparr>life_events := tx_life_events t, categories := tx_categories t,
                 states := tx_states t, provider := tx_provider t,
                 governance := tx_governance t, stage := tx_stage t,
                 stage_variant := tx_stage_variant t\<rparr>))"

text \<open>\<^verbatim>\<open>extractBreadcrumbs($)\<close>: the items of the first breadcrumb selector that matches.\<close>

definition breadcrumbSelectors :: "selector list" where
  "breadcrumbSelectors =
     [[[[Cls ''breadcrumb''], [Tag ''li'']]],
      [[[Tag ''nav'', AttrIs ''aria-label'' ''breadcrumb''], [Tag ''li'']]],
      [[[Cls ''breadcrumbs''], [Tag ''li'']]],
      [[[AttrHas ''class'' ''breadcrumb''], [Tag ''li'']]]]"

definition extractBreadcrumbs :: "node \<Rightarrow> string list" where
  "extractBreadcrumbs root =
     (case filter (\<lambda>items. items \<noteq> []) (map (select root) breadcrumbSelectors) of
        [] \<Rightarrow> []
      | items # _ \<Rightarrow>
          filter (\<lambda>t. t \<noteq> [] \<and> t \<noteq> ''>'' \<and> t \<noteq> ''/'')
            (map (\<lambda>p. trim (selText root [p])) items))"

text \<open>The main content root: the first match of the first selector that matches, else \<^verbatim>\<open>body\<close>.\<close>

definition mainSelectors :: "selector list" where
  "mainSelectors = [[[[Tag ''main'']]], [[[Ident ''main-content'']]], [[[Cls ''main-content'']]],
                    [[[Tag ''article'']]]]"

definition mainOf :: "node \<Rightarrow> path list" where
  "mainOf root =
     (case filter (\<lambda>ms. ms \<noteq> []) (map (select root) mainSelectors) of
        [] \<Rightarrow> select root [[[Tag ''body'']]]
      | ms # _ \<Rightarrow> take 1 ms)"

definition contentFilter :: selector where
  "contentFilter = [[[Tag ''p'']], [[Tag ''ul'']], [[Tag ''ol'']], [[Tag ''div'', Cls ''content'']],
                    [[Cls ''info-box'']], [[Tag ''table'']], [[Tag ''form'']]]"

text \<open>
  The content of the \<open>i\<close>-th heading: the siblings up to the next heading; if there are
  none and the heading sits in a \<^verbatim>\<open>div\<close>, \<^verbatim>\<open>section\<close> or \<^verbatim>\<open>article\<close>, all children of
  that container that are not headings.
\<close>

definition contentOf :: "node \<Rightarrow> path list \<Rightarrow> nat \<Rightarrow> path list" where
  "contentOf root headings i =
     (let h = headings ! i;
          nextHeading = (if Suc i < length headings then Some (headings ! Suc i) else None);
          content = nextUntil root h nextHeading contentFilter
      in if content = [] \<and> h \<noteq> [] \<and> matchesAt root (tagSel [''div'', ''section'', ''article'']) (butlast h)
         then filter (\<lambda>q. \<not> matchesAt root headingSel q) (childrenOf root (butlast h))
         else content)"

text \<open>
  The first loop of \<^verbatim>\<open>extractFragments\<close>: one fragment per heading that has content or is
  an \<^verbatim>\<open>h1\<close>, enriched and stamped; a fragment whose enrichment throws is skipped.
\<close>

definition headingFragment ::
  "platform \<Rightarrow> int \<Rightarrow> node \<Rightarrow> string \<Rightarrow> string list \<Rightarrow> string \<Rightarrow> path list \<Rightarrow> nat \<Rightarrow> fragment list" where
  "headingFragment env CRAWL_VERSION root u breadcrumbs pageTitle headings i =
     (let content = contentOf root headings i
      in if content \<noteq> [] \<or> matchesAt root (tagSel [''h1'']) (headings ! i) then
           (case enrichWithTaxonomy env
                   (extractFragment env root (headings ! i) content u breadcrumbs pageTitle) of
              None \<Rightarrow> []
            | Some e \<Rightarrow> [e\<lparr>crawl_version := CRAWL_VERSION, page_url := Some (baseUrl u)\<rparr>])
         else [])"

definition headingFragments :: "platform \<Rightarrow> int \<Rightarrow> node \<Rightarrow> string \<Rightarrow> fragment list" where
  "headingFragments env CRAWL_VERSION root u =
     (let pageTitle = selText root (select root (tagSel [''title'']));
          breadcrumbs = extractBreadcrumbs root;
          headings = find root (mainOf root) headingSel
      in concat (map (headingFragment env CRAWL_VERSION root u breadcrumbs pageTitle headings)
                   [0..<length headings]))"

text \<open>The second loop: one fragment per match of each standalone selector.\<close>

definition standaloneSelectors :: "selector list" where
  "standaloneSelectors =
     [[[[Cls ''alert'']]], [[[Cls ''warning-box'']]], [[[Cls ''info-panel'']]],
      [[[AttrIs ''role'' ''alert'']]], [[[Cls ''checklist'']]], [[[Cls ''step-list'']]]]"

definition standaloneFragment ::
  "platform \<Rightarrow> int \<Rightarrow> node \<Rightarrow> string \<Rightarrow> string list \<Rightarrow> path \<Rightarrow> fragment list" where
  "standaloneFragment env CRAWL_VERSION root u breadcrumbs elem =
     (case enrichWithTaxonomy env (extractStandaloneFragment env root elem u breadcrumbs) of
        None \<Rightarrow> []
      | Some e \<Rightarrow> [e\<lparr>crawl_version := CRAWL_VERSION\<rparr>])"

definition standaloneFragments :: "platform \<Rightarrow> int \<Rightarrow> node \<Rightarrow> string \<Rightarrow> fragment list" where
  "standaloneFragments env CRAWL_VERSION root u =
     (let breadcrumbs = extractBreadcrumbs root
      in concat (map (\<lambda>sel. concat (map (standaloneFragment env CRAWL_VERSION root u breadcrumbs)
                                     (find root (mainOf root) sel)))
                   standaloneSelectors))"

text \<open>\<^verbatim>\<open>extractFragments($, url, page)\<close>\<close>

definition extractFragments :: "platform \<Rightarrow> int \<Rightarrow> node \<Rightarrow> string \<Rightarrow> fragment list" where
  "extractFragments env CRAWL_VERSION root u =
     headingFragments env CRAWL_VERSION root u @ standaloneFragments env CRAWL_VERSION root u"

section \<open>The crawl (\<^verbatim>\<open>MyGovScraper.crawl\<close>, \<^verbatim>\<open>MyGovScraper.run\<close>)\<close>

text \<open>
  The configuration \<^verbatim>\<open>this.cfg\<close> (\<^verbatim>\<open>config/scraper-config.js\<close> is not among the sources;
  these are the fields that \<^verbatim>\<open>scraper.js\<close> reads). A pattern of \<^verbatim>\<open>excludePatterns\<close> is
  the predicate of its \<^verbatim>\<open>test\<close>.
\<close>

record config =
  maxDepth :: nat
  maxLinksPerPage :: nat
  maxPages :: nat
  excludePatterns :: "(string \<Rightarrow> bool) list"

text \<open>
  What a page fetch gives: \<^verbatim>\<open>page.goto\<close> (or a later step inside the \<^verbatim>\<open>try\<close>) throws, or
  the page loads with its document and the \<^verbatim>\<open>href\<close> and text of its anchors. The web is
  a function of the URL and of the number of earlier fetches of that URL, so that a page
  may fail first and load later.
\<close>

datatype page_result = Failed | Loaded node "(string \<times> string) list"

text \<open>
  The mutable state of the scraper. \<open>pendingCrawls\<close> lists the queued child crawls
  (URL and depth) in the order they were queued; \<open>fetched\<close> lists the URLs handed to
  \<^verbatim>\<open>page.goto\<close>, one entry per fetch; \<open>crawlLog\<close> is what \<^verbatim>\<open>monitor.recordCrawl\<close> received.
\<close>

record crawler =
  visited :: "string list"
  fragments :: "fragment list"
  requestCount :: nat
  pendingCrawls :: "(string \<times> nat) list"
  fetched :: "string list"
  crawlLog :: "(string \<times> bool) list"

definition newCrawler :: crawler where
  "newCrawler = \<lparr>visited = [], fragments = [], requestCount = 0, pendingCrawls = [],
                  fetched = [], crawlLog = []\<rparr>"

text \<open>\<^verbatim>\<open>scoreLinkRelevance(linkText)\<close>\<close>

definition scoreLinkRelevance :: "string \<Rightarrow> nat" where
  "scoreLinkRelevance linkText =
     length (filter (\<lambda>k. strIncludes (toLowerCase linkText) k)
       [''service'', ''eligibility'', ''apply'', ''benefit'', ''support'', ''help'', ''information''])"

text \<open>\<^verbatim>\<open>new URL(u).origin\<close>\<close>

definition originOf :: "url_obj \<Rightarrow> string" where
  "originOf u = protocol u @ ''//'' @ hostname u @ (if port u = [] then [] else '':'' @ port u)"

text \<open>\<^verbatim>\<open>s.match(/\.(pdf|doc|docx|xls|xlsx)$/i)\<close>\<close>

definition endsWith :: "string \<Rightarrow> string \<Rightarrow> bool" where
  "endsWith s suffix = (length suffix \<le> length s \<and> drop (length s - length suffix) s = suffix)"

definition isDocumentLink :: "string \<Rightarrow> bool" where
  "isDocumentLink h =
     list_ex (endsWith (toLowerCase h)) [''.pdf'', ''.doc'', ''.docx'', ''.xls'', ''.xlsx'']"

text \<open>The links of a page that are followed: filtered, ordered by score, cut to the limit.\<close>

definition followLink :: "config \<Rightarrow> string \<Rightarrow> string \<times> string \<Rightarrow> bool" where
  "followLink cfg u l =
     (case (parseURL (fst l), parseURL u) of
        (Some linkUrl, Some cur) \<Rightarrow>
          originOf linkUrl = originOf cur \<and> \<not> isDocumentLink (fst l) \<and>
          \<not> strIncludes (fst l) ''#'' \<and> \<not> list_ex (\<lambda>pattern. pattern (fst l)) (excludePatterns cfg)
      | _ \<Rightarrow> False)"

definition priorityLinks :: "config \<Rightarrow> string \<Rightarrow> (string \<times> string) list \<Rightarrow> string list" where
  "priorityLinks cfg u links =
     map fst (take (maxLinksPerPage cfg)
       (sort_key (\<lambda>l. - int (scoreLinkRelevance (snd l))) (filter (followLink cfg u) links)))"

text \<open>
  \<^verbatim>\<open>crawl(browser, url, robots, depth, retries)\<close>. The rate-limiting delay and the opening
  and closing of the browser page are left out. \<open>extract\<close> is \<^verbatim>\<open>this.extractFragments\<close>
  applied to the loaded document.
\<close>

fun crawl ::
  "config \<Rightarrow> (node \<Rightarrow> string \<Rightarrow> fragment list) \<Rightarrow> (string \<Rightarrow> nat \<Rightarrow> page_result) \<Rightarrow> (string \<Rightarrow> bool)
   \<Rightarrow> string \<Rightarrow> nat \<Rightarrow> nat \<Rightarrow> crawler \<Rightarrow> crawler" where
  "crawl cfg extract web robots u depth retries s =
     (if u \<in> set (visited s) \<or> depth > maxDepth cfg \<or> \<not> robots u then s
      else
        (let s1 = s\<lparr>requestCount := requestCount s + 1, visited := setAdd u (visited s)\<rparr>;
             attempt = count_list (fetched s1) u;
             s2 = s1\<lparr>fetched := fetched s1 @ [u]\<rparr>
         in case web u attempt of
              Loaded doc links \<Rightarrow>
                (let s3 = s2\<lparr>fragments := fragments s2 @ extract doc u,
                             crawlLog := crawlLog s2 @ [(u, True)]\<rparr>
                 in if depth < maxDepth cfg
                    then s3\<lparr>pendingCrawls :=
                            pendingCrawls s3 @ map (\<lambda>link. (link, depth + 1)) (priorityLinks cfg u links)\<rparr>
                    else s3)
            | Failed \<Rightarrow>
                (let s3 = s2\<lparr>crawlLog := crawlLog s2 @ [(u, False)]\<rparr>
                 in case retries of
                      0 \<Rightarrow> s3
                    | Suc r \<Rightarrow> crawl cfg extract web robots u depth r s3)))"

declare crawl.simps [simp del]

text \<open>
  The queued child crawls are run in the order queued, each of which may queue more; the
  driver of \<^verbatim>\<open>run\<close> waits until none is left. This ends because a crawl queues at most
  \<^verbatim>\<open>maxLinksPerPage\<close> children, one level deeper, and none from depth \<^verbatim>\<open>maxDepth\<close>
  on: the weight below, summed over the crawls still queued, falls with every crawl.
\<close>

definition taskWeight :: "config \<Rightarrow> string \<times> nat \<Rightarrow> nat" where
  "taskWeight cfg t = (maxLinksPerPage cfg + 1) ^ (Suc (maxDepth cfg) - snd t)"

lemma crawl_pending:
  "\<exists>cs. pendingCrawls (crawl cfg extract web robots u d k s) = pendingCrawls s @ cs \<and>
        length cs \<le> maxLinksPerPage cfg \<and> (\<forall>c \<in> set cs. snd c = d + 1) \<and>
        (cs \<noteq> [] \<longrightarrow> d < maxDepth cfg)"
proof (induction k arbitrary: s)
  case 0
  show ?case
    by (subst crawl.simps) (auto simp: Let_def priorityLinks_def split: page_result.splits)
next
  case (Suc k)
  show ?case
  proof (cases "u \<in> set (visited s) \<or> d > maxDepth cfg \<or> \<not> robots u")
    case True
    then show ?thesis by (subst crawl.simps) auto
  next
    case False
    let ?s1 = "s\<lparr>requestCount := requestCount s + 1, visited := setAdd u (visited s)\<rparr>"
    let ?s2 = "?s1\<lparr>fetched := fetched ?s1 @ [u]\<rparr>"
    show ?thesis
    proof (cases "web u (count_list (fetched ?s1) u)")
      case Failed
      let ?s3 = "?s2\<lparr>crawlLog := crawlLog ?s2 @ [(u, False)]\<rparr>"
      from Suc.IH [of ?s3] obtain cs where
        "pendingCrawls (crawl cfg extract web robots u d k ?s3) = pendingCrawls ?s3 @ cs"
        "length cs \<le> maxLinksPerPage cfg" "\<forall>c \<in> set cs. snd c = d + 1" "cs \<noteq> [] \<longrightarrow> d < maxDepth cfg"
        by blast
      with False Failed show ?thesis
        by (subst crawl.simps) (simp add: Let_def)
    next
      case (Loaded doc links)
      with False show ?thesis
        by (subst crawl.simps) (auto simp: Let_def priorityLinks_def)
    qed
  qed
qed

function runPending ::
  "config \<Rightarrow> (node \<Rightarrow> string \<Rightarrow> fragment list) \<Rightarrow> (string \<Rightarrow> nat \<Rightarrow> page_result) \<Rightarrow> (string \<Rightarrow> bool)
   \<Rightarrow> nat \<Rightarrow> crawler \<Rightarrow> crawler" where
  "runPending cfg extract web robots i s =
     (if i < length (pendingCrawls s)
      then runPending cfg extract web robots (Suc i)
             (crawl cfg extract web robots (fst (pendingCrawls s ! i)) (snd (pendingCrawls s ! i)) 3 s)
      else s)"
  by pat_completeness auto
termination
proof (relation "measure (\<lambda>(cfg, extract, web, robots, i, s).
                   sum_list (map (taskWeight cfg) (drop i (pendingCrawls s))))", goal_cases)
  case 1
  show ?case by simp
next
  case (2 cfg ex wb rb i s)
  let ?t = "pendingCrawls s ! i"
  let ?L = "maxLinksPerPage cfg"
  from crawl_pending [of cfg ex wb rb "fst ?t" "snd ?t" 3 s] obtain cs where
    cs: "pendingCrawls (crawl cfg ex wb rb (fst ?t) (snd ?t) 3 s) = pendingCrawls s @ cs"
      "length cs \<le> ?L" "\<forall>c \<in> set cs. snd c = snd ?t + 1" "cs \<noteq> [] \<longrightarrow> snd ?t < maxDepth cfg"
    by blast
  have w: "sum_list (map (taskWeight cfg) cs) < taskWeight cfg ?t"
  proof (cases "cs = []")
    case True
    then show ?thesis by (simp add: taskWeight_def)
  next
    case False
    with cs(4) have d: "snd ?t < maxDepth cfg" by simp
    have "map (taskWeight cfg) cs = replicate (length cs) ((?L + 1) ^ (maxDepth cfg - snd ?t))"
      using cs(3) by (auto simp: taskWeight_def map_replicate_const [symmetric] intro!: map_cong)
    then have "sum_list (map (taskWeight cfg) cs) = length cs * (?L + 1) ^ (maxDepth cfg - snd ?t)"
      by (simp add: sum_list_replicate)
    also have "\<dots> \<le> ?L * (?L + 1) ^ (maxDepth cfg - snd ?t)"
      using cs(2) by simp
    also have "\<dots> < (?L + 1) * (?L + 1) ^ (maxDepth cfg - snd ?t)"
      by simp
    also have "\<dots> = taskWeight cfg ?t"
      using d by (simp add: taskWeight_def Suc_diff_le)
    finally show ?thesis .
  qed
  from 2 have "drop i (pendingCrawls s) = ?t # drop (Suc i) (pendingCrawls s)"
    by (simp add: Cons_nth_drop_Suc)
  with 2 cs(1) w show ?case by simp
qed

text \<open>
  The crawling part of \<^verbatim>\<open>run(startUrl)\<close>: the sitemap URLs (cut to \<^verbatim>\<open>maxPages\<close>) at depth
  0, then the start URL, then the queued children. \<^verbatim>\<open>fetchSitemapUrls\<close> is not among the
  sources; its result is the argument \<open>sitemapUrls\<close>. The crawls run one after the
  other, which is the schedule of a worker pool of size one.
\<close>

definition runCrawl ::
  "config \<Rightarrow> (node \<Rightarrow> string \<Rightarrow> fragment list) \<Rightarrow> (string \<Rightarrow> nat \<Rightarrow> page_result) \<Rightarrow> (string \<Rightarrow> bool)
   \<Rightarrow> string list \<Rightarrow> string \<Rightarrow> crawler" where
  "runCrawl cfg extract web robots sitemapUrls startUrl =
     (let s1 = foldl (\<lambda>s u. crawl cfg extract web robots u 0 3 s) newCrawler
                 (take (maxPages cfg) sitemapUrls);
          s2 = crawl cfg extract web robots startUrl 0 3 s1
      in runPending cfg extract web robots 0 s2)"

section \<open>Indexing (\<^verbatim>\<open>indexFragments\<close>, \<^verbatim>\<open>indexPages\<close>)\<close>

text \<open>
  A collection of the store holds one document per id: \<^verbatim>\<open>upsert\<close> replaces the document
  with the same id or appends a new one.
\<close>

fun upsertBy :: "('d \<Rightarrow> string) \<Rightarrow> 'd \<Rightarrow> 'd list \<Rightarrow> 'd list" where
  "upsertBy key d [] = [d]"
| "upsertBy key d (x # xs) = (if key x = key d then d # xs else x # upsertBy key d xs)"

text \<open>
  What a bulk import request can do. \<open>Throws\<close>: the request throws (no connection, or a
  body that is not JSON lines) and nothing is written. \<open>Rejected\<close>: the store answers the
  whole request with an error status and a JSON error object; nothing is written, and
  the HTTP client does not throw on an error status. \<open>Processed\<close>: the store takes each
  line on its own, writes the documents it accepts and answers one result line per
  document.
\<close>

datatype import_outcome = Throws | Rejected | Processed

record 'd indexing =
  docs :: "'d list"
  indexed :: nat
  logged :: "string list"

text \<open>\<^verbatim>\<open>for (i = 0; i < xs.length; i += n) { batch = xs.slice(i, i + n) ... }\<close>\<close>

function batchesOf :: "nat \<Rightarrow> 'a list \<Rightarrow> 'a list list" where
  "batchesOf n xs = (if xs = [] \<or> n = 0 then [] else take n xs # batchesOf n (drop n xs))"
  by pat_completeness auto
termination
  by (relation "measure (\<lambda>(n, xs). length xs)") auto

declare batchesOf.simps [simp del]

text \<open>
  The fallback of both indexers: one \<^verbatim>\<open>upsert\<close> per document of the batch; a document
  whose upsert throws is logged and skipped.
\<close>

definition upsertEach ::
  "('d \<Rightarrow> string) \<Rightarrow> ('d \<Rightarrow> bool) \<Rightarrow> ('d \<Rightarrow> string) \<Rightarrow> 'd indexing \<Rightarrow> 'd list \<Rightarrow> 'd indexing" where
  "upsertEach key upsertOk describe st batch =
     foldl (\<lambda>st doc. if upsertOk doc
                      then st\<lparr>docs := upsertBy key doc (docs st), indexed := indexed st + 1\<rparr>
                      else st\<lparr>logged := logged st @ [''Failed to index: '' @ describe doc]\<rparr>)
       st batch"

text \<open>
  One batch of \<^verbatim>\<open>indexFragments\<close>, which posts the batch to the import endpoint itself.
  The answer is split into lines and parsed; \<open>failures\<close> are the result lines without a
  true \<^verbatim>\<open>success\<close>. An error object is one such line. Only a thrown error reaches the
  fallback.
\<close>

definition indexFragmentBatch ::
  "(fragment \<Rightarrow> bool) \<Rightarrow> (fragment \<Rightarrow> bool) \<Rightarrow> (nat \<Rightarrow> import_outcome)
   \<Rightarrow> fragment indexing \<Rightarrow> nat \<times> fragment list \<Rightarrow> fragment indexing" where
  "indexFragmentBatch accepts upsertOk outcome st kb =
     (let k = fst kb; batch = snd kb
      in case outcome k of
           Processed \<Rightarrow>
             (let failures = length (filter (\<lambda>d. \<not> accepts d) batch)
              in st\<lparr>docs := foldl (\<lambda>ds d. upsertBy frag_id d ds) (docs st) (filter accepts batch),
                     indexed := indexed st + (length batch - failures),
                     logged := logged st @ (if k = 0 \<and> failures > 0 then [''Import failures''] else [])\<rparr>)
         | Rejected \<Rightarrow>
             st\<lparr>indexed := indexed st + (length batch - 1),
                logged := logged st @ (if k = 0 then [''Import failures''] else [])\<rparr>
         | Throws \<Rightarrow>
             upsertEach frag_id upsertOk url (st\<lparr>logged := logged st @ [''Batch import error'']\<rparr>) batch)"

definition indexFragments ::
  "(fragment \<Rightarrow> bool) \<Rightarrow> (fragment \<Rightarrow> bool) \<Rightarrow> (nat \<Rightarrow> import_outcome)
   \<Rightarrow> fragment list \<Rightarrow> fragment list \<Rightarrow> fragment indexing" where
  "indexFragments accepts upsertOk outcome stored frags =
     (let batches = batchesOf 100 frags
      in foldl (indexFragmentBatch accepts upsertOk outcome)
           \<lparr>docs = stored, indexed = 0, logged = []\<rparr> (zip [0..<length batches] batches))"

text \<open>
  One batch of \<^verbatim>\<open>indexPages\<close>, which imports through the store's client. The client
  throws when the request fails and when a document of the batch is refused; the
  documents the store accepted are written by then.
\<close>

definition indexPageBatch ::
  "(page_doc \<Rightarrow> bool) \<Rightarrow> (page_doc \<Rightarrow> bool) \<Rightarrow> (nat \<Rightarrow> import_outcome)
   \<Rightarrow> page_doc indexing \<Rightarrow> nat \<times> page_doc list \<Rightarrow> page_doc indexing" where
  "indexPageBatch accepts upsertOk outcome st kb =
     (let k = fst kb; batch = snd kb;
          written = st\<lparr>docs := foldl (\<lambda>ds d. upsertBy pg_id d ds) (docs st) (filter accepts batch)\<rparr>
      in case outcome k of
           Processed \<Rightarrow>
             if list_all accepts batch then written\<lparr>indexed := indexed st + length batch\<rparr>
             else upsertEach pg_id upsertOk pg_url
                    (written\<lparr>logged := logged st @ [''Pages batch import error'']\<rparr>) batch
         | _ \<Rightarrow>
             upsertEach pg_id upsertOk pg_url
               (st\<lparr>logged := logged st @ [''Pages batch import error'']\<rparr>) batch)"

definition indexPages ::
  "(page_doc \<Rightarrow> bool) \<Rightarrow> (page_doc \<Rightarrow> bool) \<Rightarrow> (nat \<Rightarrow> import_outcome)
   \<Rightarrow> page_doc list \<Rightarrow> page_doc list \<Rightarrow> page_doc indexing" where
  "indexPages accepts upsertOk outcome stored pageDocs =
     (let batches = batchesOf 100 pageDocs
      in foldl (indexPageBatch accepts upsertOk outcome)
           \<lparr>docs = stored, indexed = 0, logged = []\<rparr> (zip [0..<length batches] batches))"

section \<open>The document store and \<^verbatim>\<open>pruneStaleDocs\<close>\<close>









section \<open>Specification-level views of the aggregation\<close>




section \<open>Fixtures\<close>

text \<open>Two fragments of one page: a heading fragment, and one without \<open>page_url\<close>.\<close>

definition fixtureFragment ::
  "string \<Rightarrow> string \<Rightarrow> string option \<Rightarrow> string \<Rightarrow> string \<Rightarrow> string \<Rightarrow> string list \<Rightarrow> fragment" where
  "fixtureFragment i u pu lvl0 txt stg les =
     \<lparr>frag_id = i, url = u, page_url = pu, anchor = None, title = Some lvl0,
      content_text = txt, content_html = [], hierarchy_lvl0 = Some lvl0,
      hierarchy_lvl1 = None, hierarchy_lvl2 = None, hierarchy_lvl3 = None,
      life_events = les, categories = [], states = [''National''],
      provider = None, governance = None, stage = Some stg, stage_variant = None,
      search_keywords = [], content_hash = None, crawl_version = 1\<rparr>"

definition fragA :: fragment where
  "fragA = fixtureFragment ''a1'' ''https://my.gov.au/carers#a1''
             (Some ''https://my.gov.au/carers'') ''Carers'' ''carer payment'' ''Before''
             [''Caring for someone'']"

definition fragB :: fragment where
  "fragB = fixtureFragment ''b2'' ''https://my.gov.au/carers#b2''
             None ''Eligibility'' ''who can apply'' ''After'' [''Ageing'']"



text \<open>
  A page with the headings H1 "Carers", H2 "Eligibility", H3 "How to apply" in document
  order, each followed by a paragraph, and an alert box; its title is "myGov" and it has
  no breadcrumb trail. The platform functions are stand-ins.
\<close>

definition el :: "string \<Rightarrow> string \<Rightarrow> node" where
  "el t s = Elem t [] [Text s]"

definition carersPage :: node where
  "carersPage =
     Elem ''html'' []
       [Elem ''head'' [] [el ''title'' ''myGov''],
        Elem ''body'' []
          [Elem ''main'' []
             [el ''h1'' ''Carers'', el ''p'' ''Support for carers.'',
              el ''h2'' ''Eligibility'', el ''p'' ''Who can get it.'',
              el ''h3'' ''How to apply'', el ''p'' ''Apply online.'',
              Elem ''div'' [(''class'', ''alert'')] [Text '' Bring your ID. '']]]]"

definition fixtureEnv :: platform where
  "fixtureEnv =
     \<lparr>md5 = (\<lambda>s. ''md5:'' @ s), sha256 = (\<lambda>s. ''sha256:'' @ s), outerHTML = nodeText,
      keywordsOf = (\<lambda>s. []),
      classify = (\<lambda>u t x. Some \<lparr>tx_life_events = [], tx_categories = [], tx_states = [''National''],
                              tx_provider = None, tx_governance = None, tx_stage = None,
                              tx_stage_variant = None\<rparr>)\<rparr>"

text \<open>A second page with the same heading, content and alert texts in another structure.\<close>

definition otherPage :: node where
  "otherPage =
     Elem ''main'' []
       [Elem ''h2'' [(''id'', ''apply'')] [Text ''  How to apply''],
        Elem ''ul'' [] [el ''li'' ''Apply online. ''],
        Elem ''div'' [(''role'', ''alert'')] [Elem ''b'' [] [Text '' Bring your ID. '']]]"

text \<open>
  A small site: the start page links to two pages of the same origin (and to one of
  another origin and to a PDF, which are not followed). Page \<^verbatim>\<open>/a\<close> fails on its first
  fetch and would load on the second. The configuration allows depth 1 and one page.
\<close>

definition cfgOnePage :: config where
  "cfgOnePage = \<lparr>maxDepth = 1, maxLinksPerPage = 10, maxPages = 1, excludePatterns = []\<rparr>"

definition siteWeb :: "string \<Rightarrow> nat \<Rightarrow> page_result" where
  "siteWeb u n =
     (if u = ''https://my.gov.au/''
      then Loaded carersPage
             [(''https://my.gov.au/a'', ''Apply''), (''https://my.gov.au/b'', ''About''),
              (''https://other.gov.au/c'', ''Help''), (''https://my.gov.au/d.PDF'', ''Form'')]
      else if u = ''https://my.gov.au/a'' \<and> n = 0 then Failed
      else Loaded otherPage [])"


section \<open>Properties of the content hash\<close>

lemma dropWhile_all_iff: "(\<forall>x \<in> set (dropWhile P s). P x) \<longleftrightarrow> (\<forall>x \<in> set s. P x)"
  by (induction s) auto

lemma trim_Nil_iff: "trim s = [] \<longleftrightarrow> (\<forall>c \<in> set s. isSpace c)"
  by (simp add: trim_def dropWhile_eq_Nil_conv dropWhile_all_iff)

lemma normalizedContent_Nil [simp]: "normalizedContent [] = []"
  by (simp add: normalizedContent_def toLowerCase_def replaceNonWord_def collapseSpaces_def trim_def)

lemma isSpace_lowerChar: "isSpace c \<Longrightarrow> lowerChar c = c"
  by (auto simp: isSpace_def lowerChar_def Let_def)

lemma collapseFrom_spaces:
  "\<forall>c \<in> set s. isSpace c \<Longrightarrow> \<forall>c \<in> set (collapseFrom b s). isSpace c"
  by (induction s arbitrary: b) (auto simp: isSpace_def)

lemma normalizedContent_blank:
  assumes "trim text = []"
  shows "normalizedContent text = []"
proof -
  from assms have sp: "\<forall>c \<in> set text. isSpace c" by (simp add: trim_Nil_iff)
  then have "toLowerCase text = text"
    by (simp add: toLowerCase_def isSpace_lowerChar map_idI)
  moreover from sp have "replaceNonWord text = text"
    by (simp add: replaceNonWord_def map_idI)
  ultimately have "normalizedContent text = trim (collapseSpaces text)"
    by (simp add: normalizedContent_def)
  moreover from sp have "\<forall>c \<in> set (collapseSpaces text). isSpace c"
    unfolding collapseSpaces_def by (rule collapseFrom_spaces)
  ultimately show ?thesis by (simp add: trim_Nil_iff)
qed

lemma calculateContentHash_normalized:
  "calculateContentHash digest text =
     (if normalizedContent text = [] then None else Some (digest (normalizedContent text)))"
proof (cases "trim text = []")
  case True
  then show ?thesis by (simp add: calculateContentHash_def normalizedContent_blank)
next
  case False
  then have "text \<noteq> []" by (auto simp: trim_def)
  with False show ?thesis by (simp add: calculateContentHash_def Let_def)
qed


lemma calculateContentHash_empty:
  "t = [] \<or> normalizedContent t = [] \<Longrightarrow> calculateContentHash digest t = None"
  by (auto simp: calculateContentHash_normalized)

section \<open>Properties of page aggregation\<close>

lemma setAddAll_Nil [simp]: "setAddAll [] xs = xs"
  by (simp add: setAddAll_def)

lemma setAddAll_snoc: "setAddAll (ys @ [y]) xs = setAdd y (setAddAll ys xs)"
  by (simp add: setAddAll_def)

lemma set_setAdd [simp]: "set (setAdd x xs) = insert x (set xs)"
  by (auto simp: setAdd_def)

lemma set_setAddAll [simp]: "set (setAddAll ys xs) = set ys \<union> set xs"
  by (induction ys rule: rev_induct) (auto simp: setAddAll_snoc)

lemma distinct_setAdd: "distinct xs \<Longrightarrow> distinct (setAdd x xs)"
  by (auto simp: setAdd_def)




















lemma setAddOpt_set: "set (setAddOpt v xs) = set xs \<union> set (setAddOpt v [])"
  by (auto simp: setAddOpt_def)

lemma distinct_setAddOpt: "distinct xs \<Longrightarrow> distinct (setAddOpt v xs)"
  by (simp add: setAddOpt_def distinct_setAdd)





















section \<open>Properties of fragment extraction\<close>

lemma nodeAt_append:
  "nodeAt root (p @ q) = (case nodeAt root p of None \<Rightarrow> None | Some n \<Rightarrow> nodeAt n q)"
  by (induction p arbitrary: root) auto

lemma nodeAt_child:
  "nodeAt root m = Some c \<Longrightarrow> i < length (kids c) \<Longrightarrow> nodeAt root (m @ [i]) = Some (kids c ! i)"
  by (simp add: nodeAt_append)

lemma matchesAt_tag:
  "nodeAt root p = Some n \<Longrightarrow> matchesAt root (tagSel [t]) p = (isElem n \<and> tagOf n = t)"
  by (auto simp: matchesAt_def tagSel_def matchesChain_def matchesCompound_def)

lemma childrenOf_at:
  "nodeAt root m = Some c \<Longrightarrow>
   childrenOf root m = map (\<lambda>i. m @ [i]) (filter (\<lambda>i. isElem (kids c ! i)) [0..<length (kids c)])"
  by (simp add: childrenOf_def)

lemma filter_less_upt: "filter (\<lambda>i. i < k) [0..<n] = [0..<min k n]"
proof (induction n)
  case 0
  show ?case by simp
next
  case (Suc n)
  show ?case
  proof (cases "n < k")
    case True
    then have "min k (Suc n) = Suc n" "min k n = n" by simp_all
    with Suc True show ?thesis by simp
  next
    case False
    then have "min k (Suc n) = k" "min k n = k" by simp_all
    with Suc False show ?thesis by simp
  qed
qed

lemma prevAll_at:
  assumes "nodeAt root m = Some c"
  shows "prevAll root (m @ [idx]) =
           rev (map (\<lambda>i. m @ [i]) (filter (\<lambda>i. isElem (kids c ! i)) [0..<min idx (length (kids c))]))"
proof -
  have "filter (\<lambda>i. isElem (kids c ! i) \<and> i < idx) [0..<length (kids c)]
        = filter (\<lambda>i. isElem (kids c ! i)) (filter (\<lambda>i. i < idx) [0..<length (kids c)])"
    unfolding filter_filter by (rule filter_cong) auto
  also have "filter (\<lambda>i. i < idx) [0..<length (kids c)] = [0..<min idx (length (kids c))]"
    by (rule filter_less_upt)
  finally show ?thesis
    using assms by (simp add: prevAll_def childrenOf_at filter_map comp_def)
qed


lemma prevHeadingText_at:
  assumes c: "nodeAt root m = Some c"
  shows "prevHeadingText root (m @ [idx]) tag =
           (case filter (\<lambda>n. isElem n \<and> tagOf n = tag) (rev (take idx (kids c))) of
              [] \<Rightarrow> [] | n # _ \<Rightarrow> nodeText n)"
proof -
  let ?ks = "kids c"
  let ?n = "min idx (length ?ks)"
  let ?js = "filter (\<lambda>i. isElem (?ks ! i) \<and> tagOf (?ks ! i) = tag) [0..<?n]"
  have m: "matchesAt root (tagSel [tag]) (m @ [i]) = (isElem (?ks ! i) \<and> tagOf (?ks ! i) = tag)"
    if "i < length ?ks" for i
    using nodeAt_child [OF c that] by (simp add: matchesAt_tag)
  have "filter (matchesAt root (tagSel [tag])) (prevAll root (m @ [idx]))
        = rev (map (\<lambda>i. m @ [i])
            (filter (\<lambda>i. matchesAt root (tagSel [tag]) (m @ [i]))
               (filter (\<lambda>i. isElem (?ks ! i)) [0..<?n])))"
    by (simp add: prevAll_at [OF c] filter_map comp_def flip: rev_filter)
  also have "filter (\<lambda>i. matchesAt root (tagSel [tag]) (m @ [i])) (filter (\<lambda>i. isElem (?ks ! i)) [0..<?n]) = ?js"
    unfolding filter_filter by (rule filter_cong) (auto simp: m)
  finally have A: "filter (matchesAt root (tagSel [tag])) (prevAll root (m @ [idx]))
                   = map (\<lambda>i. m @ [i]) (rev ?js)"
    by (simp add: rev_map)
  have "take idx ?ks = map (\<lambda>i. ?ks ! i) [0..<?n]"
    by (rule nth_equalityI) auto
  then have B: "filter (\<lambda>n. isElem n \<and> tagOf n = tag) (rev (take idx ?ks)) = map (\<lambda>i. ?ks ! i) (rev ?js)"
    by (simp add: filter_map comp_def rev_map flip: rev_filter)
  show ?thesis
  proof (cases "rev ?js")
    case Nil
    then show ?thesis unfolding prevHeadingText_def A B by (simp add: selText_def)
  next
    case (Cons j js)
    then have "j \<in> set ?js" by (metis list.set_intros(1) set_rev)
    then have "j < length ?ks" by auto
    from nodeAt_child [OF c this] Cons show ?thesis
      unfolding prevHeadingText_def A B by (simp add: selText_def)
  qed
qed


lemma orDefault_nonempty: "d \<noteq> [] \<Longrightarrow> orDefault a d \<noteq> []"
  by (auto simp: orDefault_def split: option.splits)

lemma orDefault_Some: "s \<noteq> [] \<Longrightarrow> orDefault (Some s) d = s"
  by (simp add: orDefault_def)

text \<open>
  C5 (amended). On a page whose container holds, in this order and as siblings, an H1
  "Carers", an H2 "Eligibility" and an H3 "How to apply" (with no other H2 between the
  last two), the fragment of the H3 has \<open>hierarchy_lvl1\<close> "Eligibility" and
  \<open>hierarchy_lvl2\<close> "How to apply"; its \<open>hierarchy_lvl0\<close> is the last breadcrumb, else the
  page title, else "Content": the H1 is not consulted.
\<close>

theorem h3_fragment_hierarchy:
  assumes c: "nodeAt root m = Some c"
    and ks: "kids c = pre @ [Elem ''h1'' a1 k1] @ mid1 @ [Elem ''h2'' a2 k2] @ mid2
                      @ [Elem ''h3'' a3 k3] @ post"
    and h: "h = m @ [length pre + 1 + length mid1 + 1 + length mid2]"
    and mid2: "\<forall>n \<in> set mid2. tagOf n \<noteq> ''h2''"
    and t1: "nodeText (Elem ''h1'' a1 k1) = ''Carers''"
    and t2: "nodeText (Elem ''h2'' a2 k2) = ''Eligibility''"
    and t3: "nodeText (Elem ''h3'' a3 k3) = ''How to apply''"
  shows "hierarchy_lvl0 (extractFragment env root h content u breadcrumbs pageTitle)
           = Some (orDefault (lastCrumb breadcrumbs) (orDefault (Some pageTitle) ''Content'')) \<and>
         hierarchy_lvl1 (extractFragment env root h content u breadcrumbs pageTitle) = Some ''Eligibility'' \<and>
         hierarchy_lvl2 (extractFragment env root h content u breadcrumbs pageTitle) = Some ''How to apply'' \<and>
         hierarchy_lvl3 (extractFragment env root h content u breadcrumbs pageTitle) = None"
proof -
  let ?idx = "length pre + 1 + length mid1 + 1 + length mid2"
  let ?before = "pre @ [Elem ''h1'' a1 k1] @ mid1 @ [Elem ''h2'' a2 k2] @ mid2"
  have len: "?idx = length ?before" by simp
  have idx: "?idx < length (kids c)" by (simp add: ks)
  have "kids c ! ?idx = Elem ''h3'' a3 k3"
    unfolding ks len by (simp add: nth_append)
  with nodeAt_child [OF c idx] have hn: "nodeAt root h = Some (Elem ''h3'' a3 k3)"
    by (simp add: h)
  have lvl: "headingLevel ''h3'' = 3" by (simp add: headingLevel_def)
  have ht: "trim (selText root [h]) = ''How to apply''"
  proof -
    have "selText root [h] = ''How to apply''" using hn t3 by (simp add: selText_def)
    moreover have "trim ''How to apply'' = ''How to apply''" by code_simp
    ultimately show ?thesis by simp
  qed
  have "take ?idx (kids c) = ?before"
    unfolding ks len by simp
  then have "filter (\<lambda>n. isElem n \<and> tagOf n = ''h2'') (rev (take ?idx (kids c)))
             = Elem ''h2'' a2 k2 # filter (\<lambda>n. isElem n \<and> tagOf n = ''h2'')
                 (rev (pre @ [Elem ''h1'' a1 k1] @ mid1))"
    using mid2 by (simp add: filter_empty_conv)
  then have p2: "prevHeadingText root h ''h2'' = ''Eligibility''"
    unfolding h prevHeadingText_at [OF c] using t2 by simp
  have nz: "orDefault (lastCrumb breadcrumbs) (orDefault (Some pageTitle) ''Content'') \<noteq> []"
    by (simp add: orDefault_nonempty)
  show ?thesis
    using hn lvl ht p2 nz
    by (simp add: extractFragment_def Let_def orDefault_Some)
qed


theorem h3_fragment_hierarchy_witness:
  "hierarchy_lvl0 (extractFragment fixtureEnv carersPage [1, 0, 4] [[1, 0, 5]] ''https://my.gov.au/carers'' [] ''myGov'')
     = Some ''myGov'' \<and>
   hierarchy_lvl1 (extractFragment fixtureEnv carersPage [1, 0, 4] [[1, 0, 5]] ''https://my.gov.au/carers'' [] ''myGov'')
     = Some ''Eligibility'' \<and>
   hierarchy_lvl2 (extractFragment fixtureEnv carersPage [1, 0, 4] [[1, 0, 5]] ''https://my.gov.au/carers'' [] ''myGov'')
     = Some ''How to apply'' \<and>
   hierarchy_lvl3 (extractFragment fixtureEnv carersPage [1, 0, 4] [[1, 0, 5]] ''https://my.gov.au/carers'' [] ''myGov'')
     = None"
proof -
  let ?main = "Elem ''main'' []
             [el ''h1'' ''Carers'', el ''p'' ''Support for carers.'',
              el ''h2'' ''Eligibility'', el ''p'' ''Who can get it.'',
              el ''h3'' ''How to apply'', el ''p'' ''Apply online.'',
              Elem ''div'' [(''class'', ''alert'')] [Text '' Bring your ID. '']]"
  have c: "nodeAt carersPage [1, 0] = Some ?main"
    by (simp add: carersPage_def)
  have ks: "kids ?main = [] @ [Elem ''h1'' [] [Text ''Carers'']] @ [el ''p'' ''Support for carers.'']
              @ [Elem ''h2'' [] [Text ''Eligibility'']] @ [el ''p'' ''Who can get it.'']
              @ [Elem ''h3'' [] [Text ''How to apply'']]
              @ [el ''p'' ''Apply online.'', Elem ''div'' [(''class'', ''alert'')] [Text '' Bring your ID. '']]"
    by (simp add: el_def)
  have h: "[1, 0, 4] = [1, 0] @ [length ([] :: node list) + 1 + length [el ''p'' ''Support for carers.''] + 1
                                  + length [el ''p'' ''Who can get it.'']]"
    by simp
  have mid2: "\<forall>n \<in> set [el ''p'' ''Who can get it.'']. tagOf n \<noteq> ''h2''"
    by (simp add: el_def)
  have d: "orDefault (lastCrumb []) (orDefault (Some ''myGov'') ''Content'') = ''myGov''"
    by (simp add: orDefault_def lastCrumb_def)
  from h3_fragment_hierarchy [OF c ks h mid2, of fixtureEnv "[[1, 0, 5]]" "''https://my.gov.au/carers''" "[]" "''myGov''"] d
  show ?thesis by simp
qed

text \<open>
  C5 as stated fails on the page of the claim: the fragment of the H3 takes
  \<open>hierarchy_lvl0\<close> from the page title, not from the H1.
\<close>

theorem h3_lvl0_counterexample:
  "map title (extractFragments fixtureEnv 7 carersPage ''https://my.gov.au/carers'')
     = [Some ''Carers'', Some ''Eligibility'', Some ''How to apply'', Some ''Important Information''] \<and>
   hierarchy_lvl0 (extractFragments fixtureEnv 7 carersPage ''https://my.gov.au/carers'' ! 2) = Some ''myGov'' \<and>
   hierarchy_lvl0 (extractFragments fixtureEnv 7 carersPage ''https://my.gov.au/carers'' ! 2) \<noteq> Some ''Carers'' \<and>
   hierarchy_lvl1 (extractFragments fixtureEnv 7 carersPage ''https://my.gov.au/carers'' ! 2) = Some ''Eligibility'' \<and>
   hierarchy_lvl2 (extractFragments fixtureEnv 7 carersPage ''https://my.gov.au/carers'' ! 2) = Some ''How to apply''"
  by code_simp

lemma enrich_frag_id: "enrichWithTaxonomy env f = Some e \<Longrightarrow> frag_id e = frag_id f \<and> page_url e = page_url f"
  by (auto simp: enrichWithTaxonomy_def split: option.splits)




















section \<open>Properties of the crawl\<close>

lemma crawl_visited:
  "u \<in> set (visited s) \<Longrightarrow> crawl cfg ex wb rb u d k s = s"
  by (subst crawl.simps) simp

lemma crawl_fetches_once:
  "length (fetched (crawl cfg ex wb rb u d k s)) \<le> length (fetched s) + 1"
proof (cases "u \<in> set (visited s) \<or> d > maxDepth cfg \<or> \<not> rb u")
  case True
  then show ?thesis by (subst crawl.simps) auto
next
  case False
  let ?s1 = "s\<lparr>requestCount := requestCount s + 1, visited := setAdd u (visited s)\<rparr>"
  let ?s3 = "?s1\<lparr>fetched := fetched ?s1 @ [u], crawlLog := crawlLog ?s1 @ [(u, False)]\<rparr>"
  have "crawl cfg ex wb rb u d r ?s3 = ?s3" for r
    by (rule crawl_visited) simp
  with False show ?thesis
    by (subst crawl.simps) (auto simp: Let_def split: page_result.splits nat.splits)
qed

text \<open>
  C3 fails: a retry never fetches again. Page \<^verbatim>\<open>/a\<close> fails on its first fetch and would
  load on a second one; \<open>crawl\<close> with three retries fetches it once, records one failure
  and returns, because the retrying call finds the URL in \<open>visited\<close>.
\<close>

theorem crawl_retry_never_refetches:
  "siteWeb ''https://my.gov.au/a'' 0 = Failed \<and>
   siteWeb ''https://my.gov.au/a'' 1 = Loaded otherPage [] \<and>
   fetched (crawl cfgOnePage (extractFragments fixtureEnv 2) siteWeb (\<lambda>u. True)
              ''https://my.gov.au/a'' 0 3 newCrawler) = [''https://my.gov.au/a''] \<and>
   crawlLog (crawl cfgOnePage (extractFragments fixtureEnv 2) siteWeb (\<lambda>u. True)
              ''https://my.gov.au/a'' 0 3 newCrawler) = [(''https://my.gov.au/a'', False)] \<and>
   fragments (crawl cfgOnePage (extractFragments fixtureEnv 2) siteWeb (\<lambda>u. True)
              ''https://my.gov.au/a'' 0 3 newCrawler) = []"
  by code_simp

text \<open>
  C4 fails: \<^verbatim>\<open>maxPages\<close> only cuts the list of sitemap URLs. With \<^verbatim>\<open>maxPages = 1\<close> and no
  sitemap, the run fetches the start page and both pages it links to.
\<close>

theorem run_exceeds_maxPages:
  "maxPages cfgOnePage = 1 \<and>
   fetched (runCrawl cfgOnePage (extractFragments fixtureEnv 2) siteWeb (\<lambda>u. True) []
              ''https://my.gov.au/'')
     = [''https://my.gov.au/'', ''https://my.gov.au/a'', ''https://my.gov.au/b'']"
  by code_simp

section \<open>Properties of indexing\<close>

lemma upsertBy_keys: "key ` set (upsertBy key d xs) = insert (key d) (key ` set xs)"
  by (induction xs) auto

lemma upsertEach_Nil: "upsertEach key ok desc st [] = st"
  by (simp add: upsertEach_def)

lemma upsertEach_snoc:
  "upsertEach key ok desc st (batch @ [d]) =
     (let st' = upsertEach key ok desc st batch
      in if ok d then st'\<lparr>docs := upsertBy key d (docs st'), indexed := indexed st' + 1\<rparr>
         else st'\<lparr>logged := logged st' @ [''Failed to index: '' @ desc d]\<rparr>)"
  by (simp add: upsertEach_def Let_def)

lemma upsertEach_writes:
  "key ` set (docs (upsertEach key ok desc st batch))
     = key ` set (docs st) \<union> key ` {d \<in> set batch. ok d}"
  by (induction batch rule: rev_induct)
     (auto simp: upsertEach_Nil upsertEach_snoc Let_def upsertBy_keys)

lemma upsertEach_logs:
  "logged (upsertEach key ok desc st batch)
     = logged st @ map (\<lambda>d. ''Failed to index: '' @ desc d) (filter (\<lambda>d. \<not> ok d) batch)"
  by (induction batch rule: rev_induct) (auto simp: upsertEach_Nil upsertEach_snoc Let_def)

text \<open>
  C7 fails in \<^verbatim>\<open>indexFragments\<close> when the store rejects the batch request with an error
  status: the answer parses as one failed result line, no error is thrown, no
  per-document write follows, and the counter rises by the batch size less one.
\<close>

theorem rejected_batch_no_fallback:
  "indexFragments (\<lambda>d. True) (\<lambda>d. True) (\<lambda>k. Rejected) [] [fragA, fragB]
     = \<lparr>docs = [], indexed = 1, logged = [''Import failures'']\<rparr>"
  by code_simp

section \<open>Properties of pruning\<close>












end
